theory Spec2Isabelle
  imports Complex_Main
begin

section \<open>Problem generator: the Hamiltonian\<close>

text \<open>
  The notebook fixes the problem size: \<^verbatim>\<open>num_qubits = 2\<close>.
\<close>

definition num_qubits :: nat where
  "num_qubits = 2"

text \<open>
  A two-dimensional array is the list of its rows. \<open>has_shape r c A\<close> says that \<open>A\<close>
  has \<open>r\<close> rows of \<open>c\<close> entries each, which is what \<^verbatim>\<open>A.shape == (r, c)\<close> says.
\<close>

definition has_shape :: "nat \<Rightarrow> nat \<Rightarrow> 'a list list \<Rightarrow> bool" where
  "has_shape r c A = (length A = r \<and> list_all (\<lambda>row. length row = c) A)"

text \<open>
  \<^verbatim>\<open>A.T\<close>: entry \<open>(j, i)\<close> of the result is entry \<open>(i, j)\<close> of \<open>A\<close>. The number of
  columns is read off the first row.
\<close>

definition T :: "'a list list \<Rightarrow> 'a list list" where
  "T A = (case A of [] \<Rightarrow> []
          | row # _ \<Rightarrow> map (\<lambda>j. map (\<lambda>r. r ! j) A) [0..<length row])"

text \<open>
  \<^verbatim>\<open>A + B\<close> on two arrays of one shape adds entry by entry. The only sum in the notebook,
  \<^verbatim>\<open>temp + temp.T\<close>, has both operands of shape \<open>(2 ** num_qubits, 2 ** num_qubits)\<close>.
\<close>

definition array_add :: "real list list \<Rightarrow> real list list \<Rightarrow> real list list" where
  "array_add A B = map (\<lambda>(ra, rb). map (\<lambda>(x, y). x + y) (zip ra rb)) (zip A B)"

text \<open>
  \<^verbatim>\<open>temp = np.random.random((2 ** num_qubits, 2 ** num_qubits))\<close> \<^verbatim>\<open>h1 = temp + temp.T\<close>.
  The random draw \<open>temp\<close> is the argument.
\<close>

definition h1 :: "real list list \<Rightarrow> real list list" where
  "h1 temp = array_add temp (T temp)"

text \<open>
  A real array read as a complex one, and the conjugate transpose of a complex array: a
  matrix is Hermitian when it equals its conjugate transpose.
\<close>

definition as_complex :: "real list list \<Rightarrow> complex list list" where
  "as_complex A = map (map complex_of_real) A"

definition dagger :: "complex list list \<Rightarrow> complex list list" where
  "dagger A = map (map cnj) (T A)"

section \<open>The Hamiltonian is square and symmetric\<close>

lemma has_shape_nth: "has_shape r c A \<Longrightarrow> i < r \<Longrightarrow> length (A ! i) = c"
  by (simp add: has_shape_def list_all_length)

lemma has_shapeI:
  "length A = r \<Longrightarrow> (\<And>i. i < r \<Longrightarrow> length (A ! i) = c) \<Longrightarrow> has_shape r c A"
  by (simp add: has_shape_def list_all_length)

lemma array_eqI:
  assumes "has_shape r c A" "has_shape r c B"
    and "\<And>i j. i < r \<Longrightarrow> j < c \<Longrightarrow> A ! i ! j = B ! i ! j"
  shows "A = B"
proof (rule nth_equalityI)
  show "length A = length B" using assms(1,2) by (simp add: has_shape_def)
next
  fix i assume "i < length A"
  then have i: "i < r" using assms(1) by (simp add: has_shape_def)
  show "A ! i = B ! i"
  proof (rule nth_equalityI)
    show "length (A ! i) = length (B ! i)"
      using has_shape_nth[OF assms(1) i] has_shape_nth[OF assms(2) i] by simp
  next
    fix j assume "j < length (A ! i)"
    then have "j < c" using has_shape_nth[OF assms(1) i] by simp
    then show "A ! i ! j = B ! i ! j" using assms(3) i by simp
  qed
qed

lemma T_square:
  assumes "has_shape d d A"
  shows "T A = map (\<lambda>j. map (\<lambda>r. r ! j) A) [0..<d]"
proof (cases A)
  case Nil
  then show ?thesis using assms by (simp add: has_shape_def T_def)
next
  case (Cons row rest)
  then have "0 < d" using assms by (auto simp: has_shape_def)
  then have "length row = d" using has_shape_nth[OF assms, of 0] Cons by simp
  then show ?thesis using Cons by (simp add: T_def)
qed

lemma T_square_shape: "has_shape d d A \<Longrightarrow> has_shape d d (T A)"
  by (simp add: T_square) (simp add: has_shape_def list_all_length)

lemma T_square_nth: "has_shape d d A \<Longrightarrow> i < d \<Longrightarrow> j < d \<Longrightarrow> T A ! j ! i = A ! i ! j"
  by (simp add: T_square) (simp add: has_shape_def)

lemma array_add_shape:
  assumes "has_shape r c A" "has_shape r c B"
  shows "has_shape r c (array_add A B)"
  using assms by (simp add: has_shape_def array_add_def list_all_length)

lemma array_add_nth:
  assumes "has_shape r c A" "has_shape r c B" "i < r" "j < c"
  shows "array_add A B ! i ! j = A ! i ! j + B ! i ! j"
  using assms by (simp add: has_shape_def array_add_def list_all_length)

lemma h1_shape: "has_shape d d temp \<Longrightarrow> has_shape d d (h1 temp)"
  by (simp add: h1_def array_add_shape T_square_shape)

lemma h1_nth:
  "has_shape d d temp \<Longrightarrow> i < d \<Longrightarrow> j < d \<Longrightarrow> h1 temp ! i ! j = temp ! i ! j + temp ! j ! i"
  by (simp add: h1_def array_add_nth T_square_shape T_square_nth)

lemma h1_symmetric:
  assumes "has_shape d d temp"
  shows "T (h1 temp) = h1 temp"
proof (rule array_eqI)
  show "has_shape d d (T (h1 temp))" by (simp add: T_square_shape h1_shape assms)
  show "has_shape d d (h1 temp)" by (simp add: h1_shape assms)
  fix i j assume "i < d" "j < d"
  then show "T (h1 temp) ! i ! j = h1 temp ! i ! j"
    by (simp add: T_square_nth[OF h1_shape[OF assms]] h1_nth[OF assms])
qed

lemma as_complex_shape: "has_shape r c A \<Longrightarrow> has_shape r c (as_complex A)"
  by (simp add: has_shape_def as_complex_def list_all_length)

lemma as_complex_nth:
  "has_shape r c A \<Longrightarrow> i < r \<Longrightarrow> j < c \<Longrightarrow> as_complex A ! i ! j = complex_of_real (A ! i ! j)"
  by (simp add: has_shape_def as_complex_def list_all_length)

lemma dagger_shape: "has_shape d d A \<Longrightarrow> has_shape d d (dagger A)"
  using T_square_shape[of d A] by (simp add: dagger_def has_shape_def list_all_length)

lemma dagger_nth:
  assumes "has_shape d d A" "i < d" "j < d"
  shows "dagger A ! j ! i = cnj (A ! i ! j)"
proof -
  have "length (T A) = d" "length (T A ! j) = d"
    using T_square_shape[OF assms(1)] assms(3) by (simp_all add: has_shape_def list_all_length)
  then show ?thesis
    using assms by (simp add: dagger_def T_square_nth)
qed

lemma h1_hermitian:
  assumes "has_shape d d temp"
  shows "dagger (as_complex (h1 temp)) = as_complex (h1 temp)"
proof (rule array_eqI)
  have s: "has_shape d d (h1 temp)" by (rule h1_shape[OF assms])
  show "has_shape d d (dagger (as_complex (h1 temp)))"
    by (intro dagger_shape as_complex_shape s)
  show "has_shape d d (as_complex (h1 temp))"
    by (intro as_complex_shape s)
  fix i j assume ij: "i < d" "j < d"
  have "dagger (as_complex (h1 temp)) ! i ! j = cnj (as_complex (h1 temp) ! j ! i)"
    by (rule dagger_nth[OF as_complex_shape[OF s] ij(2,1)])
  also have "\<dots> = complex_of_real (h1 temp ! j ! i)"
    by (simp add: as_complex_nth[OF s ij(2,1)])
  also have "h1 temp ! j ! i = h1 temp ! i ! j"
    using ij by (simp add: h1_nth[OF assms])
  finally show "dagger (as_complex (h1 temp)) ! i ! j = as_complex (h1 temp) ! i ! j"
    by (simp add: as_complex_nth[OF s ij])
qed

text \<open>
  Claim C4: for every random matrix \<open>temp\<close> of the generator's shape, the Hamiltonian
  \<open>h1 = temp + temp.T\<close> is a square \<open>2^n \<times> 2^n\<close> matrix, equal to its own transpose, and
  hence equal to its own conjugate transpose when read as a complex matrix.
\<close>

theorem h1_square_symmetric:
  assumes "has_shape (2 ^ num_qubits) (2 ^ num_qubits) temp"
  shows "has_shape (2 ^ num_qubits) (2 ^ num_qubits) (h1 temp)
       \<and> T (h1 temp) = h1 temp
       \<and> dagger (as_complex (h1 temp)) = as_complex (h1 temp)"
  using assms by (simp add: h1_shape h1_symmetric h1_hermitian)

theorem h1_square_symmetric_witness:
  "has_shape (2 ^ num_qubits) (2 ^ num_qubits)
     [[1/2, 1/4, 0, 3/4], [1/8, 0, 1/2, 1/4], [3/4, 1/2, 1/8, 0], [0, 1/4, 3/8, 1/2 :: real]]
   \<and> h1 [[1/2, 1/4, 0, 3/4], [1/8, 0, 1/2, 1/4], [3/4, 1/2, 1/8, 0], [0, 1/4, 3/8, 1/2]]
     = [[1, 3/8, 3/4, 3/4], [3/8, 0, 1, 1/2], [3/4, 1, 1/4, 3/8], [3/4, 1/2, 3/8, 1]]
   \<and> T (h1 [[1/2, 1/4, 0, 3/4], [1/8, 0, 1/2, 1/4], [3/4, 1/2, 1/8, 0], [0, 1/4, 3/8, 1/2]])
     = h1 [[1/2, 1/4, 0, 3/4], [1/8, 0, 1/2, 1/4], [3/4, 1/2, 1/8, 0], [0, 1/4, 3/8, 1/2]]"
proof -
  let ?t = "[[1/2, 1/4, 0, 3/4], [1/8, 0, 1/2, 1/4], [3/4, 1/2, 1/8, 0], [0, 1/4, 3/8, 1/2 :: real]]"
  have s: "has_shape (2 ^ num_qubits) (2 ^ num_qubits) ?t"
    by (simp add: has_shape_def num_qubits_def)
  have v: "h1 ?t = [[1, 3/8, 3/4, 3/4], [3/8, 0, 1, 1/2], [3/4, 1, 1/4, 3/8], [3/4, 1/2, 3/8, 1]]"
    by (simp add: h1_def array_add_def T_def upt_rec)
  from s v h1_square_symmetric[OF s] show ?thesis by blast
qed

end
